theory Spec2Isabelle
  imports Main "HOL-Library.Word"
begin

unbundle bit_operations_syntax

section \<open>Schnorr signatures over secp256k1: the module \<open>pySecp256k1/schnorr.py\<close>\<close>

text \<open>
  The module is four public functions (\<open>sign\<close>, \<open>verify\<close>, \<open>bcrypto410_sign\<close>,
  \<open>bcrypto410_verify\<close>) and two codec helpers. Everything else it calls comes in through
  \<open>from . import *\<close>: the curve constants, the point arithmetic, the hash primitive, the
  point decoders and the entropy source. Those collaborators are the fields of the record
  \<open>env\<close>; the conversions between integers and byte strings, the tagged hash and the
  byte-wise exclusive or are written out as the specification describes them.
\<close>

subsection \<open>Data\<close>

type_synonym byte = "8 word"
type_synonym bytes = "byte list"

text \<open>
  A Python \<open>Point\<close> is the list \<open>[x, y]\<close>. Where the module expects the point at
  infinity it tests for \<open>None\<close> (lines 106 and 192).
\<close>

type_synonym point = "int \<times> int"

text \<open>
  The exceptions a call can end with. \<open>ValueError\<close> is the invalid-input error of the
  four public functions, \<open>RuntimeError\<close> the nonce failure. \<open>TypeError\<close> is what Python
  raises when \<open>None\<close> reaches \<open>Point(*v)\<close>; \<open>OverflowError\<close> is \<open>int.to_bytes\<close> on a
  value that does not fit 32 bytes; \<open>EntropyError\<close> stands for an entropy source that
  cannot deliver. The collaborators may raise any of them.
\<close>

datatype error =
  ValueError | RuntimeError | TypeError | OverflowError | EntropyError

text \<open>
  The collaborators imported from the package. Each call either returns or raises:
  \<^item> \<open>G_times k\<close> is \<open>G * k\<close>, the multiplication operator of \<open>Point\<close> applied to the
    generator: a \<open>Point\<close>, or an exception;
  \<^item> \<open>point_mul P k\<close> is \<open>point_mul(P, k)\<close>: a point, \<open>None\<close>, or an exception;
  \<^item> \<open>point_add A B\<close> is \<open>A + B\<close> as lines 105 and 191 use it, \<open>A\<close> the \<open>Point\<close> that
    \<open>G * s\<close> returned and \<open>B\<close> what \<open>point_mul\<close> returned: a point, \<open>None\<close>, or an
    exception;
  \<^item> \<open>lift_x\<close> returns a point or \<open>None\<close>; \<open>PublicKey.decode\<close> a point, or an exception;
  \<^item> \<open>n\<close>, \<open>p\<close>, \<open>hash_sha256\<close>, \<open>is_quad\<close> and \<open>encoded_from_point\<close> are a constant or a
    function that returns.
  The remainder \<open>% n\<close> is only ever reached with \<open>n > 1\<close>: the signers have checked
  \<open>1 <= seckey <= n - 1\<close> and the verifiers \<open>s < n\<close> for an \<open>s >= 0\<close> before it.
\<close>

record env =
  curve_n :: int
  curve_p :: int
  hash_sha256 :: "bytes \<Rightarrow> bytes"
  G_times :: "int \<Rightarrow> error + point"
  point_mul :: "point \<Rightarrow> int \<Rightarrow> error + point option"
  point_add :: "point \<Rightarrow> point option \<Rightarrow> error + point option"
  lift_x :: "bytes \<Rightarrow> point option"
  is_quad :: "int \<Rightarrow> bool"
  PublicKey_decode :: "bytes \<Rightarrow> error + point"
  encoded_from_point :: "point \<Rightarrow> bytes"

subsection \<open>Codec\<close>

text \<open>
  Modelled from the spec: \<open>int_from_bytes\<close> and \<open>bytes_from_int\<close> are missing from
  the sources; the specification fixes them as big-endian conversions, the second of
  fixed width 32. A value outside \<open>[0, 2^256)\<close> does not fit and raises.
\<close>

definition int_from_bytes :: "bytes \<Rightarrow> int" where
  "int_from_bytes bs = foldl (\<lambda>acc b. acc * 256 + uint b) 0 bs"

fun be_bytes :: "nat \<Rightarrow> int \<Rightarrow> bytes" where
  "be_bytes 0 x = []"
| "be_bytes (Suc k) x = be_bytes k (x div 256) @ [word_of_int x]"

definition bytes_from_int :: "int \<Rightarrow> error + bytes" where
  "bytes_from_int x =
     (if 0 \<le> x \<and> x < 2 ^ 256 then Inr (be_bytes 32 x) else Inl OverflowError)"

text \<open>\<open>bytes_from_point(P)\<close>: \<open>return bytes_from_int(P[0])\<close>.\<close>

definition bytes_from_point :: "point \<Rightarrow> error + bytes" where
  "bytes_from_point P = bytes_from_int (fst P)"

text \<open>
  Modelled from the spec: \<open>tagged_hash\<close> is missing from the sources; the specification
  defines it as \<open>H(H(tag) || H(tag) || data)\<close> over the hash primitive, the tag an ASCII
  string.
\<close>

definition ascii :: "string \<Rightarrow> bytes" where
  "ascii s = map (\<lambda>c. of_nat (of_char c)) s"

definition tagged_hash :: "env \<Rightarrow> string \<Rightarrow> bytes \<Rightarrow> bytes" where
  "tagged_hash env tag data =
     (let tag_hash = hash_sha256 env (ascii tag)
      in hash_sha256 env (tag_hash @ tag_hash @ data))"

text \<open>
  Modelled from the spec: \<open>xor_bytes\<close> is missing from the sources; the specification
  uses it as the byte-wise exclusive or of two buffers (\<open>t = d XOR taggedHash(...)\<close>).
\<close>

definition xor_bytes :: "bytes \<Rightarrow> bytes \<Rightarrow> bytes" where
  "xor_bytes b0 b1 = map (\<lambda>(x, y). x XOR y) (zip b0 b1)"

text \<open>
  Modelled from the spec: \<open>has_even_y\<close> is missing from the sources; the specification
  reads it as "\<open>P.y\<close> is even".
\<close>

definition has_even_y :: "point \<Rightarrow> bool" where
  "has_even_y P = (snd P mod 2 = 0)"

subsection \<open>Python glue\<close>

definition and_then :: "error + 'a \<Rightarrow> ('a \<Rightarrow> error + 'b) \<Rightarrow> error + 'b" where
  "and_then m f = (case m of Inl e \<Rightarrow> Inl e | Inr v \<Rightarrow> f v)"

text \<open>
  \<open>Point(*v)\<close>: the argument is unpacked before the constructor runs, and unpacking
  \<open>None\<close> raises \<open>TypeError\<close>. A constructed object is never \<open>None\<close>.
\<close>

definition Point_star :: "point option \<Rightarrow> error + point" where
  "Point_star v = (case v of None \<Rightarrow> Inl TypeError | Some xy \<Rightarrow> Inr xy)"

text \<open>
  Lines 105 and 191, the same expression in both verifiers:
  \<open>R = Point(*(G * s + point_mul(P, k)))\<close>, with \<open>k = n - e\<close>. Python evaluates the left
  operand, then the right one, then the sum, then unpacks it for the constructor; the
  first exception ends the call.
\<close>

definition compute_R :: "env \<Rightarrow> int \<Rightarrow> point \<Rightarrow> int \<Rightarrow> error + point" where
  "compute_R env s P k =
     and_then (G_times env s) (\<lambda>Gs.
       and_then (point_mul env P k) (\<lambda>Q.
         and_then (point_add env Gs Q) Point_star))"

text \<open>
  The entropy source \<open>rand_k()\<close> is the list of the integers it will still deliver.
  \<open>aux_or_random\<close> is the conditional expression of \<open>sign\<close>, lines 139-140:
  \<open>bytes_from_int(rand_k()) if aux_rand is None else aux_rand\<close>.
\<close>

fun aux_or_random :: "bytes option \<Rightarrow> int list \<Rightarrow> (error + bytes) \<times> int list" where
  "aux_or_random (Some a) ents = (Inr a, ents)"
| "aux_or_random None [] = (Inl EntropyError, [])"
| "aux_or_random None (v # vs) = (bytes_from_int v, vs)"

subsection \<open>\<open>sign\<close> (lines 112-158)\<close>

text \<open>Line 133: \<open>seckey = seckey0 if has_even_y(P) else n - seckey0\<close>.\<close>

definition sign_seckey :: "env \<Rightarrow> point \<Rightarrow> int \<Rightarrow> int" where
  "sign_seckey env P seckey0 = (if has_even_y P then seckey0 else curve_n env - seckey0)"

text \<open>
  Lines 135-145: \<open>t\<close> and \<open>k0\<close>, from the encoded secret \<open>skb\<close>, the auxiliary bytes
  \<open>a\<close>, the encoded public key \<open>Pb\<close> and the message.
\<close>

definition sign_k0 :: "env \<Rightarrow> bytes \<Rightarrow> bytes \<Rightarrow> bytes \<Rightarrow> bytes \<Rightarrow> int" where
  "sign_k0 env skb a Pb msg =
     (let t = xor_bytes skb (tagged_hash env ''BIP0340/aux'' a)
      in int_from_bytes (tagged_hash env ''BIP0340/nonce'' (t @ Pb @ msg)) mod curve_n env)"

text \<open>
  The challenge, written the same way in \<open>sign\<close> (lines 154-156) and in \<open>verify\<close>
  (lines 188-190).
\<close>

definition challenge :: "env \<Rightarrow> bytes \<Rightarrow> bytes \<Rightarrow> bytes \<Rightarrow> int" where
  "challenge env r Pb msg =
     int_from_bytes (tagged_hash env ''BIP0340/challenge'' (r @ Pb @ msg)) mod curve_n env"

text \<open>
  Lines 146-158, from the nonce \<open>k0\<close> on. \<open>bytes_from_point(P)\<close> of line 155 is the
  value \<open>Pb\<close> that line 144 has already computed.
\<close>

definition sign_finish :: "env \<Rightarrow> bytes \<Rightarrow> int \<Rightarrow> bytes \<Rightarrow> int \<Rightarrow> error + bytes" where
  "sign_finish env msg seckey Pb k0 =
     (if k0 = 0 then Inl RuntimeError
      else and_then (G_times env k0) (\<lambda>R.
        let k = (if \<not> has_even_y R then curve_n env - k0 else k0)
        in and_then (bytes_from_point R) (\<lambda>r.
             let e = challenge env r Pb msg
             in and_then (bytes_from_int ((k + e * seckey) mod curve_n env))
                  (\<lambda>sb. Inr (r @ sb)))))"

definition sign ::
  "env \<Rightarrow> bytes \<Rightarrow> bytes \<Rightarrow> bytes option \<Rightarrow> int list \<Rightarrow> (error + bytes) \<times> int list" where
  "sign env msg seckey0 aux_rand ents =
     (if length msg \<noteq> 32 then (Inl ValueError, ents)
      else
        let d0 = int_from_bytes seckey0
        in if \<not> (1 \<le> d0 \<and> d0 \<le> curve_n env - 1) then (Inl ValueError, ents)
           else
             (case G_times env d0 of
               Inl e \<Rightarrow> (Inl e, ents)
             | Inr P \<Rightarrow>
                 (let seckey = sign_seckey env P d0
                  in (case bytes_from_int seckey of
                       Inl e \<Rightarrow> (Inl e, ents)
                     | Inr skb \<Rightarrow>
                         (case aux_or_random aux_rand ents of
                           (Inl e, ents') \<Rightarrow> (Inl e, ents')
                         | (Inr a, ents') \<Rightarrow>
                             (case bytes_from_point P of
                               Inl e \<Rightarrow> (Inl e, ents')
                             | Inr Pb \<Rightarrow>
                                 (sign_finish env msg seckey Pb (sign_k0 env skb a Pb msg),
                                  ents')))))))"

subsection \<open>\<open>verify\<close> (lines 161-195)\<close>

text \<open>
  Lines 191-195. \<open>R\<close> is built by \<open>Point(*(G * s + point_mul(P, n-e)))\<close>, so the test
  \<open>R is None\<close> of line 192 is never true: either line 191 has raised, or \<open>R\<close> is an
  object.
\<close>

definition verify :: "env \<Rightarrow> bytes \<Rightarrow> bytes \<Rightarrow> bytes \<Rightarrow> error + bool" where
  "verify env msg pubkey sig =
     (if length msg \<noteq> 32 then Inl ValueError
      else if length pubkey \<noteq> 32 then Inl ValueError
      else if length sig \<noteq> 64 then Inl ValueError
      else case lift_x env pubkey of
        None \<Rightarrow> Inr False
      | Some P \<Rightarrow>
          let r = int_from_bytes (take 32 sig); s = int_from_bytes (drop 32 sig)
          in if r \<ge> curve_p env \<or> s \<ge> curve_n env then Inr False
             else
               let e = challenge env (take 32 sig) pubkey msg
               in and_then (compute_R env s P (curve_n env - e))
                    (\<lambda>R. if \<not> has_even_y R \<or> fst R \<noteq> r then Inr False else Inr True))"

subsection \<open>\<open>bcrypto410_sign\<close> (lines 43-78) and \<open>bcrypto410_verify\<close> (lines 81-109)\<close>

text \<open>Line 63: \<open>k0 = int_from_bytes(hash_sha256(seckey0 + msg)) % n\<close>.\<close>

definition bcrypto410_k0 :: "env \<Rightarrow> bytes \<Rightarrow> bytes \<Rightarrow> int" where
  "bcrypto410_k0 env seckey0 msg =
     int_from_bytes (hash_sha256 env (seckey0 @ msg)) mod curve_n env"

definition bcrypto410_sign :: "env \<Rightarrow> bytes \<Rightarrow> bytes \<Rightarrow> error + bytes" where
  "bcrypto410_sign env msg seckey0 =
     (if length msg \<noteq> 32 then Inl ValueError
      else
        let seckey = int_from_bytes seckey0
        in if \<not> (1 \<le> seckey \<and> seckey \<le> curve_n env - 1) then Inl ValueError
           else
             let k0 = bcrypto410_k0 env seckey0 msg
             in if k0 = 0 then Inl RuntimeError
                else and_then (G_times env k0) (\<lambda>R.
                  and_then (bytes_from_int (fst R)) (\<lambda>Rraw.
                    and_then (G_times env seckey) (\<lambda>Pk.
                      let e = int_from_bytes
                                (hash_sha256 env (Rraw @ encoded_from_point env Pk @ msg))
                              mod curve_n env;
                          k = (if \<not> is_quad env (snd R) then curve_n env - k0 else k0);
                          s = (k + e * seckey) mod curve_n env
                      in and_then (bytes_from_int s) (\<lambda>sb. Inr (Rraw @ sb))))))"

definition bcrypto410_verify :: "env \<Rightarrow> bytes \<Rightarrow> bytes \<Rightarrow> bytes \<Rightarrow> error + bool" where
  "bcrypto410_verify env msg pubkey sig =
     (if length msg \<noteq> 32 then Inl ValueError
      else if length sig \<noteq> 64 then Inl ValueError
      else and_then (PublicKey_decode env pubkey) (\<lambda>P.
        let r = int_from_bytes (take 32 sig); s = int_from_bytes (drop 32 sig)
        in if r \<ge> curve_p env \<or> s \<ge> curve_n env then Inr False
           else
             let e = int_from_bytes (hash_sha256 env (take 32 sig @ pubkey @ msg))
                     mod curve_n env
             in and_then (compute_R env s P (curve_n env - e))
                  (\<lambda>R. if \<not> is_quad env (snd R) \<or> fst R \<noteq> r then Inr False else Inr True)))"

section \<open>What the theorems assume of the curve arithmetic\<close>

text \<open>
  The curve collaborator is outside the module and taken to be correct on the scalars
  strictly between \<open>0\<close> and \<open>n\<close>; nothing is assumed of \<open>G * 0\<close>, of \<open>point_mul(P, n)\<close> or of
  a sum that is the point at infinity. Of its correctness the proofs use exactly this
  much: the order \<open>n\<close> and the prime \<open>p\<close> fit 32 bytes and \<open>p\<close> is odd; every multiple
  \<open>G * k\<close> with \<open>0 < k < n\<close> is returned, a point with coordinates in the field and a
  non-zero \<open>y\<close>, and \<open>G * (n - k)\<close> is its negation; the sum of two such multiples is the
  multiple of the sum of the scalars modulo \<open>n\<close> when that is not \<open>0\<close>; \<open>point_mul\<close> of
  such a multiple by a scalar strictly between \<open>0\<close> and \<open>n\<close> is the multiple of the product
  modulo \<open>n\<close>, which is not \<open>0\<close>; and \<open>lift_x\<close> returns the point with even \<open>y\<close> when
  given the encoded \<open>x\<close> of such a multiple.
\<close>

definition curve_contract :: "env \<Rightarrow> bool" where
  "curve_contract env \<longleftrightarrow>
     1 < curve_n env \<and> curve_n env \<le> 2 ^ 256 \<and> curve_p env \<le> 2 ^ 256 \<and>
     curve_p env mod 2 = 1 \<and>
     (\<forall>k. 1 \<le> k \<and> k < curve_n env \<longrightarrow>
        (\<exists>x y. G_times env k = Inr (x, y) \<and> 0 \<le> x \<and> x < curve_p env \<and>
               0 < y \<and> y < curve_p env \<and>
               G_times env (curve_n env - k) = Inr (x, curve_p env - y))) \<and>
     (\<forall>a b A B. 1 \<le> a \<and> a < curve_n env \<and> 1 \<le> b \<and> b < curve_n env \<and>
        (a + b) mod curve_n env \<noteq> 0 \<and> G_times env a = Inr A \<and> G_times env b = Inr B \<longrightarrow>
        (\<exists>C. G_times env ((a + b) mod curve_n env) = Inr C \<and>
             point_add env A (Some B) = Inr (Some C))) \<and>
     (\<forall>d j P. 1 \<le> d \<and> d < curve_n env \<and> 1 \<le> j \<and> j < curve_n env \<and>
        G_times env d = Inr P \<longrightarrow>
        (d * j) mod curve_n env \<noteq> 0 \<and>
        (\<exists>Q. G_times env ((d * j) mod curve_n env) = Inr Q \<and>
             point_mul env P j = Inr (Some Q))) \<and>
     (\<forall>k x y. 1 \<le> k \<and> k < curve_n env \<and> G_times env k = Inr (x, y) \<and> y mod 2 = 0 \<longrightarrow>
        lift_x env (be_bytes 32 x) = Some (x, y))"

section \<open>A small instance of the collaborators\<close>

text \<open>
  The curve \<open>y\<^sup>2 = x\<^sup>3 + 7\<close> over the field of 13 elements has 7 points and is generated
  by \<open>(7, 8)\<close>: the equation of secp256k1 at a size where every point can be listed. Its
  arithmetic is the affine chord-and-tangent rule, the inverse taken as the 11th power,
  and the scalar multiplication doubles and adds over the three bits a scalar up to 7
  has. It has no value for the point at infinity: adding a point to its negation raises
  \<open>ValueError\<close>, so that \<open>point_mul(P, 7)\<close> raises it too, \<open>point_mul(P, 0)\<close> is \<open>None\<close>, and
  \<open>G * 0\<close>, which hands that \<open>None\<close> to the constructor, raises \<open>TypeError\<close>. The hash adds
  the bytes up; the decoder reads a prefix byte and an \<open>x\<close>, of any length. The instance
  shows that the contract the theorems below assume of the collaborators can be met, and
  gives them concrete inputs to run on.
\<close>

fun tiny_point_add :: "point option \<Rightarrow> point option \<Rightarrow> error + point option" where
  "tiny_point_add None Q = Inr Q"
| "tiny_point_add (Some P) None = Inr (Some P)"
| "tiny_point_add (Some (x1, y1)) (Some (x2, y2)) =
     (if x1 = x2 \<and> y1 \<noteq> y2 then Inl ValueError
      else
        let lam = (if x1 = x2 then 3 * x1 * x1 * (2 * y1) ^ 11
                   else (y2 - y1) * (x2 - x1) ^ 11) mod 13;
            x3 = (lam * lam - x1 - x2) mod 13
        in Inr (Some (x3, (lam * (x1 - x3) - y1) mod 13)))"

fun tiny_mul_loop ::
  "nat \<Rightarrow> point option \<Rightarrow> point option \<Rightarrow> int \<Rightarrow> error + point option" where
  "tiny_mul_loop 0 R P k = Inr R"
| "tiny_mul_loop (Suc i) R P k =
     and_then (if k mod 2 = 1 then tiny_point_add R P else Inr R) (\<lambda>R'.
       and_then (tiny_point_add P P) (\<lambda>P'. tiny_mul_loop i R' P' (k div 2)))"

definition tiny_point_mul :: "point \<Rightarrow> int \<Rightarrow> error + point option" where
  "tiny_point_mul P k = tiny_mul_loop 3 None (Some P) k"

definition tiny_G_times :: "int \<Rightarrow> error + point" where
  "tiny_G_times k = and_then (tiny_point_mul (7, 8) k) Point_star"

definition tiny_plus :: "point \<Rightarrow> point option \<Rightarrow> error + point option" where
  "tiny_plus A B =
     and_then (tiny_point_add (Some A) B) (\<lambda>S. and_then (Point_star S) (\<lambda>C. Inr (Some C)))"

definition tiny_hash :: "bytes \<Rightarrow> bytes" where
  "tiny_hash bs = replicate 31 0 @ [sum_list bs]"

definition tiny_lift_x :: "bytes \<Rightarrow> point option" where
  "tiny_lift_x b =
     (let x = int_from_bytes b
      in if x \<ge> 13 then None
         else map_option (\<lambda>y. (x, y))
                (find (\<lambda>y. (y * y) mod 13 = (x * x * x + 7) mod 13 \<and> y mod 2 = 0) [0..12]))"

definition tiny_is_quad :: "int \<Rightarrow> bool" where
  "tiny_is_quad y = (y mod 13 \<in> set (map (\<lambda>z. (z * z) mod 13) [1..12]))"

definition tiny_decode :: "bytes \<Rightarrow> error + point" where
  "tiny_decode b =
     (case b of
        [] \<Rightarrow> Inl ValueError
      | prefix # xb \<Rightarrow>
          (case tiny_lift_x xb of
             None \<Rightarrow> Inl ValueError
           | Some (x, y) \<Rightarrow> Inr (x, if prefix = 2 then y else 13 - y)))"

definition tiny_encoded :: "point \<Rightarrow> bytes" where
  "tiny_encoded P = (if snd P mod 2 = 0 then 2 else 3) # be_bytes 32 (fst P)"

definition tiny :: env where
  "tiny = \<lparr> curve_n = 7, curve_p = 13, hash_sha256 = tiny_hash,
            G_times = tiny_G_times, point_mul = tiny_point_mul, point_add = tiny_plus,
            lift_x = tiny_lift_x, is_quad = tiny_is_quad, PublicKey_decode = tiny_decode,
            encoded_from_point = tiny_encoded \<rparr>"

section \<open>The codec and the contract\<close>

lemma length_be_bytes: "length (be_bytes k x) = k"
  by (induction k arbitrary: x) simp_all

lemma int_from_bytes_snoc: "int_from_bytes (bs @ [b]) = int_from_bytes bs * 256 + uint b"
  by (simp add: int_from_bytes_def)

lemma int_from_be_bytes: "0 \<le> x \<Longrightarrow> x < 256 ^ k \<Longrightarrow> int_from_bytes (be_bytes k x) = x"
proof (induction k arbitrary: x)
  case 0
  then show ?case by (simp add: int_from_bytes_def)
next
  case (Suc k)
  have lo: "0 \<le> x div 256" using Suc.prems by simp
  have hi: "x div 256 < 256 ^ k"
  proof -
    define c :: int where "c = 256 ^ k"
    have "x < 256 * c" using Suc.prems by (simp add: c_def)
    then have "x div 256 < c" by linarith
    then show ?thesis by (simp add: c_def)
  qed
  have "uint (word_of_int x :: byte) = x mod 256"
    by (simp add: uint_word_of_int)
  with Suc.IH [OF lo hi] show ?case
    by (simp add: int_from_bytes_snoc)
qed

lemma bytes_from_int_Inr:
  "0 \<le> x \<Longrightarrow> x < 2 ^ 256 \<Longrightarrow> bytes_from_int x = Inr (be_bytes 32 x)"
  by (simp add: bytes_from_int_def)

lemma int_from_be_bytes_32: "0 \<le> x \<Longrightarrow> x < 2 ^ 256 \<Longrightarrow> int_from_bytes (be_bytes 32 x) = x"
  using int_from_be_bytes [of x 32] by simp




lemma contract_multiple:
  assumes "curve_contract env" "1 \<le> k" "k < curve_n env"
  obtains x y where "G_times env k = Inr (x, y)" "0 \<le> x" "x < curve_p env"
    "0 < y" "y < curve_p env" "G_times env (curve_n env - k) = Inr (x, curve_p env - y)"
  using assms unfolding curve_contract_def by blast

lemma contract_lift_x:
  assumes "curve_contract env" "1 \<le> k" "k < curve_n env"
    "G_times env k = Inr (x, y)" "y mod 2 = 0"
  shows "lift_x env (be_bytes 32 x) = Some (x, y)"
  using assms unfolding curve_contract_def by simp

lemma contract_add:
  assumes "curve_contract env" "1 \<le> a" "a < curve_n env" "1 \<le> b" "b < curve_n env"
    "(a + b) mod curve_n env \<noteq> 0" "G_times env a = Inr A" "G_times env b = Inr B"
  obtains C where "G_times env ((a + b) mod curve_n env) = Inr C"
    "point_add env A (Some B) = Inr (Some C)"
proof -
  from assms(1) have "\<forall>a b A B. 1 \<le> a \<and> a < curve_n env \<and> 1 \<le> b \<and> b < curve_n env \<and>
        (a + b) mod curve_n env \<noteq> 0 \<and> G_times env a = Inr A \<and> G_times env b = Inr B \<longrightarrow>
        (\<exists>C. G_times env ((a + b) mod curve_n env) = Inr C \<and>
             point_add env A (Some B) = Inr (Some C))"
    unfolding curve_contract_def by (elim conjE)
  with assms(2-) that show thesis by blast
qed

lemma contract_mul:
  assumes "curve_contract env" "1 \<le> d" "d < curve_n env" "1 \<le> j" "j < curve_n env"
    "G_times env d = Inr P"
  obtains Q where "(d * j) mod curve_n env \<noteq> 0"
    "G_times env ((d * j) mod curve_n env) = Inr Q" "point_mul env P j = Inr (Some Q)"
proof -
  from assms(1) have "\<forall>d j P. 1 \<le> d \<and> d < curve_n env \<and> 1 \<le> j \<and> j < curve_n env \<and>
        G_times env d = Inr P \<longrightarrow>
        (d * j) mod curve_n env \<noteq> 0 \<and>
        (\<exists>Q. G_times env ((d * j) mod curve_n env) = Inr Q \<and>
             point_mul env P j = Inr (Some Q))"
    unfolding curve_contract_def by (elim conjE)
  with assms(2-) that show thesis by blast
qed

lemma contract_consts:
  assumes "curve_contract env"
  shows "1 < curve_n env" "curve_n env \<le> 2 ^ 256" "curve_p env \<le> 2 ^ 256" "curve_p env mod 2 = 1"
  using assms unfolding curve_contract_def by simp_all

lemma normalized_scalar:
  assumes ok: "curve_contract env" and k: "1 \<le> k" "k < curve_n env"
    and P: "G_times env k = Inr P"
  obtains Q where "G_times env (sign_seckey env P k) = Inr Q" "has_even_y Q" "fst Q = fst P"
    "1 \<le> sign_seckey env P k" "sign_seckey env P k < curve_n env"
    "0 \<le> fst P" "fst P < curve_p env" "lift_x env (be_bytes 32 (fst P)) = Some Q"
proof -
  obtain x y where xy: "G_times env k = Inr (x, y)" "0 \<le> x" "x < curve_p env"
    "0 < y" "y < curve_p env" "G_times env (curve_n env - k) = Inr (x, curve_p env - y)"
    using contract_multiple [OF ok k] by blast
  have Pxy: "P = (x, y)" using P xy(1) by simp
  show thesis
  proof (cases "y mod 2 = 0")
    case True
    then have s: "sign_seckey env P k = k" by (simp add: sign_seckey_def has_even_y_def Pxy)
    have "lift_x env (be_bytes 32 x) = Some (x, y)"
      using contract_lift_x [OF ok k xy(1) True] .
    then show thesis
      using that [of "(x, y)"] s xy k True by (simp add: Pxy has_even_y_def)
  next
    case False
    then have s: "sign_seckey env P k = curve_n env - k"
      by (simp add: sign_seckey_def has_even_y_def Pxy)
    have k': "1 \<le> curve_n env - k" "curve_n env - k < curve_n env" using k by simp_all
    have ev: "(curve_p env - y) mod 2 = 0"
      using False contract_consts(4) [OF ok] by presburger
    have "lift_x env (be_bytes 32 x) = Some (x, curve_p env - y)"
      using contract_lift_x [OF ok k' xy(6) ev] .
    then show thesis
      using that [of "(x, curve_p env - y)"] s xy k' ev by (simp add: Pxy has_even_y_def)
  qed
qed

section \<open>Signing, then verifying\<close>

lemma sign_finish_zero: "sign_finish env msg seckey Pb 0 = Inl RuntimeError"
  by (simp add: sign_finish_def)

lemma mod_cancel_response:
  fixes n :: int
  assumes "1 \<le> k" "k < n"
  shows "((k + e * d) mod n + (d * (n - e)) mod n) mod n = k"
proof -
  have "((k + e * d) mod n + (d * (n - e)) mod n) mod n = ((k + e * d) + (d * (n - e))) mod n"
    by (simp add: mod_add_eq)
  also have "(k + e * d) + (d * (n - e)) = k + d * n"
    by (simp add: algebra_simps)
  also have "(k + d * n) mod n = k mod n" by simp
  also have "k mod n = k" using assms by simp
  finally show ?thesis .
qed

lemma sign_verify_gen:
  assumes ok: "curve_contract env"
    and msg: "length msg = 32"
    and d0: "1 \<le> int_from_bytes seckey0" "int_from_bytes seckey0 \<le> curve_n env - 1"
    and nofail: "fst (sign env msg seckey0 (Some a) ents) \<noteq> Inl RuntimeError"
  shows "\<exists>P pubkey sig. G_times env (int_from_bytes seckey0) = Inr P \<and>
           bytes_from_point P = Inr pubkey \<and>
           sign env msg seckey0 (Some a) ents = (Inr sig, ents) \<and> length sig = 64 \<and>
           (int_from_bytes (drop 32 sig) \<noteq> 0 \<and> challenge env (take 32 sig) pubkey msg \<noteq> 0 \<longrightarrow>
              verify env msg pubkey sig = Inr True)"
proof -
  define n where "n = curve_n env"
  define p where "p = curve_p env"
  define d0 where "d0 = int_from_bytes seckey0"
  have n1: "1 < n" and n256: "n \<le> 2 ^ 256" and p256: "p \<le> 2 ^ 256"
    using contract_consts [OF ok] by (simp_all add: n_def p_def)
  have d0r: "1 \<le> d0" "d0 < n" using d0 by (simp_all add: d0_def n_def)
  obtain P where P: "G_times env d0 = Inr P"
    using contract_multiple [OF ok d0r [unfolded n_def]] by blast
  define d where "d = sign_seckey env P d0"
  obtain Q where Q: "G_times env d = Inr Q" "has_even_y Q" "fst Q = fst P"
    "1 \<le> d" "d < n" "0 \<le> fst P" "fst P < p" "lift_x env (be_bytes 32 (fst P)) = Some Q"
    using normalized_scalar [OF ok d0r [unfolded n_def] P] unfolding d_def n_def p_def by blast
  define Pb where "Pb = be_bytes 32 (fst P)"
  have skb: "bytes_from_int d = Inr (be_bytes 32 d)"
    using Q(4,5) n256 by (intro bytes_from_int_Inr) simp_all
  have Pbe: "bytes_from_point P = Inr Pb"
    using Q(6,7) p256 unfolding bytes_from_point_def Pb_def by (intro bytes_from_int_Inr) simp_all
  define k0 where "k0 = sign_k0 env (be_bytes 32 d) a Pb msg"
  have sign_eq: "sign env msg seckey0 (Some a) ents = (sign_finish env msg d Pb k0, ents)"
    using msg d0r P skb Pbe
    by (simp add: sign_def d0_def [symmetric] n_def [symmetric] d_def [symmetric] k0_def Let_def)
  have k0nz: "k0 \<noteq> 0"
    using nofail sign_eq sign_finish_zero by auto
  have "0 \<le> k0" "k0 < n"
    using n1 by (simp_all add: k0_def sign_k0_def n_def Let_def)
  with k0nz have k0r: "1 \<le> k0" "k0 < n" by simp_all
  obtain R where R: "G_times env k0 = Inr R"
    using contract_multiple [OF ok k0r [unfolded n_def]] by blast
  define k where "k = sign_seckey env R k0"
  obtain Qr where Qr: "G_times env k = Inr Qr" "has_even_y Qr" "fst Qr = fst R"
    "1 \<le> k" "k < n" "0 \<le> fst R" "fst R < p"
    using normalized_scalar [OF ok k0r [unfolded n_def] R] unfolding k_def n_def p_def by blast
  define r where "r = be_bytes 32 (fst R)"
  define e where "e = challenge env r Pb msg"
  define s where "s = (k + e * d) mod n"
  have er: "0 \<le> e" "e < n" using n1 by (simp_all add: e_def challenge_def n_def)
  have sr: "0 \<le> s" "s < n" using n1 by (simp_all add: s_def)
  have rbe: "bytes_from_point R = Inr r"
    using Qr(6,7) p256 unfolding bytes_from_point_def r_def by (intro bytes_from_int_Inr) simp_all
  have sbe: "bytes_from_int s = Inr (be_bytes 32 s)"
    using sr n256 by (intro bytes_from_int_Inr) simp_all
  define sig where "sig = r @ be_bytes 32 s"
  have fin: "sign_finish env msg d Pb k0 = Inr sig"
  proof (cases "has_even_y R")
    case True
    then have "(k0 + e * d) mod n = s" by (simp add: k_def sign_seckey_def s_def)
    with True k0nz R rbe sbe show ?thesis
      by (simp add: sign_finish_def and_then_def Let_def n_def [symmetric] e_def [symmetric]
          s_def [symmetric] sig_def)
  next
    case False
    then have "(n - k0 + e * d) mod n = s" by (simp add: k_def sign_seckey_def n_def s_def)
    with False k0nz R rbe sbe show ?thesis
      by (simp add: sign_finish_def and_then_def Let_def n_def [symmetric] e_def [symmetric]
          s_def [symmetric] sig_def)
  qed
  have len: "length sig = 64" by (simp add: sig_def r_def length_be_bytes)
  have tk: "take 32 sig = r" and dr: "drop 32 sig = be_bytes 32 s"
    by (simp_all add: sig_def r_def length_be_bytes)
  have rint: "int_from_bytes r = fst R"
    unfolding r_def using Qr(6,7) p256 by (intro int_from_be_bytes_32) simp_all
  have sint: "int_from_bytes (be_bytes 32 s) = s"
    using sr n256 by (intro int_from_be_bytes_32) simp_all
  have lenPb: "length Pb = 32" by (simp add: Pb_def length_be_bytes)
  have ver: "verify env msg Pb sig = Inr True" if snz: "s \<noteq> 0" and enz: "e \<noteq> 0"
  proof -
    have s1: "1 \<le> s" using sr snz by simp
    have j: "1 \<le> n - e" "n - e < n" using er enz by simp_all
    obtain Gs where Gs: "G_times env s = Inr Gs"
      using contract_multiple [OF ok s1 sr(2) [unfolded n_def]] by blast
    define b where "b = (d * (n - e)) mod n"
    obtain B where B: "b \<noteq> 0" "G_times env b = Inr B" "point_mul env Q (n - e) = Inr (Some B)"
      using contract_mul [OF ok Q(4) Q(5) [unfolded n_def] j [unfolded n_def] Q(1)]
      unfolding b_def n_def by blast
    have "0 \<le> b" "b < n" using n1 by (simp_all add: b_def)
    with B(1) have br: "1 \<le> b" "b < n" by simp_all
    have sb: "(s + b) mod n = k"
      unfolding s_def b_def using mod_cancel_response [OF Qr(4,5)] .
    then have nz: "(s + b) mod n \<noteq> 0" using Qr(4) by simp
    obtain C where C: "G_times env ((s + b) mod n) = Inr C" "point_add env Gs (Some B) = Inr (Some C)"
      using contract_add [OF ok s1 sr(2) [unfolded n_def] br [unfolded n_def]
          nz [unfolded n_def] Gs B(2)] unfolding n_def by blast
    have "C = Qr" using C(1) Qr(1) sb by simp
    then have cR: "compute_R env s Q (n - e) = Inr Qr"
      using Gs B(3) C(2) by (simp add: compute_R_def and_then_def Point_star_def)
    show ?thesis
      using msg len lenPb Q(8) [folded Pb_def] Qr(2,3,7) sr cR
      by (simp add: verify_def tk dr rint sint Let_def
          n_def [symmetric] p_def [symmetric] e_def [symmetric] and_then_def)
  qed
  have "int_from_bytes (drop 32 sig) \<noteq> 0 \<and> challenge env (take 32 sig) Pb msg \<noteq> 0 \<longrightarrow>
          verify env msg Pb sig = Inr True"
    using ver by (simp add: dr sint tk e_def)
  then show ?thesis
    using P Pbe sign_eq fin len unfolding d0_def by auto
qed

section \<open>The small instance meets the contract\<close>

lemma tiny_fields [simp]:
  "curve_n tiny = 7" "curve_p tiny = 13" "hash_sha256 tiny = tiny_hash"
  "G_times tiny = tiny_G_times" "point_mul tiny = tiny_point_mul" "point_add tiny = tiny_plus"
  "lift_x tiny = tiny_lift_x" "is_quad tiny = tiny_is_quad"
  "PublicKey_decode tiny = tiny_decode" "encoded_from_point tiny = tiny_encoded"
  by (simp_all add: tiny_def)

lemma tiny_multiples:
  "tiny_G_times 0 = Inl TypeError" "tiny_G_times 1 = Inr (7, 8)" "tiny_G_times 2 = Inr (8, 8)"
  "tiny_G_times 3 = Inr (11, 5)" "tiny_G_times 4 = Inr (11, 8)" "tiny_G_times 5 = Inr (8, 5)"
  "tiny_G_times 6 = Inr (7, 5)" "tiny_G_times 7 = Inl ValueError"
  by (simp_all add: tiny_G_times_def tiny_point_mul_def and_then_def Point_star_def
      eval_nat_numeral)

lemma int_cases_1_6:
  fixes k :: int
  assumes "1 \<le> k" "k < 7"
  shows "k = 1 \<or> k = 2 \<or> k = 3 \<or> k = 4 \<or> k = 5 \<or> k = 6"
  using assms by arith

lemma tiny_add_table:
  assumes "1 \<le> a" "a < 7" "1 \<le> b" "b < 7" "(a + b) mod 7 \<noteq> 0"
    "tiny_G_times a = Inr A" "tiny_G_times b = Inr B"
  shows "tiny_G_times ((a + b) mod 7) = Inr (case tiny_plus A (Some B) of Inr (Some C) \<Rightarrow> C)
         \<and> (\<exists>C. tiny_plus A (Some B) = Inr (Some C))"
  using int_cases_1_6 [OF assms(1,2)] int_cases_1_6 [OF assms(3,4)] assms(5-)
  by (elim disjE) (auto simp add: tiny_multiples tiny_plus_def and_then_def Point_star_def)

lemma tiny_mul_table:
  assumes "1 \<le> d" "d < 7" "1 \<le> j" "j < 7" "tiny_G_times d = Inr P"
  shows "(d * j) mod 7 \<noteq> 0 \<and>
         (\<exists>Q. tiny_G_times ((d * j) mod 7) = Inr Q \<and> tiny_point_mul P j = Inr (Some Q))"
  using int_cases_1_6 [OF assms(1,2)] int_cases_1_6 [OF assms(3,4)] assms(5)
  by (elim disjE)
    (auto simp add: tiny_multiples tiny_point_mul_def and_then_def eval_nat_numeral)

lemma tiny_lift_x_table:
  "tiny_lift_x (be_bytes 32 7) = Some (7, 8)" "tiny_lift_x (be_bytes 32 8) = Some (8, 8)"
  "tiny_lift_x (be_bytes 32 11) = Some (11, 8)"
  by code_simp+

lemma tiny_contract: "curve_contract tiny"
proof -
  have m: "\<exists>x y. tiny_G_times k = Inr (x, y) \<and> 0 \<le> x \<and> x < 13 \<and> 0 < y \<and> y < 13 \<and>
             tiny_G_times (7 - k) = Inr (x, 13 - y)" if "1 \<le> k" "k < 7" for k
    using int_cases_1_6 [OF that] by (elim disjE) (simp_all add: tiny_multiples)
  have l: "tiny_lift_x (be_bytes 32 x) = Some (x, y)"
    if "1 \<le> k" "k < 7" "tiny_G_times k = Inr (x, y)" "y mod 2 = 0" for k x y
    using int_cases_1_6 [OF that(1,2)] that(3,4)
    by (elim disjE) (auto simp add: tiny_multiples tiny_lift_x_table)
  show ?thesis
    unfolding curve_contract_def
  proof (intro conjI allI impI, goal_cases)
    case (5 k)
    then show ?case using m [of k] by simp
  next
    case (6 a b A B)
    then show ?case using tiny_add_table [of a b A B] by auto
  next
    case (7 d j P)
    then show ?case using tiny_mul_table [of d j P] by simp
  next
    case (8 d j P)
    then show ?case using tiny_mul_table [of d j P] by simp
  next
    case (9 k x y)
    then show ?case using l [of k x y] by simp
  qed simp_all
qed

section \<open>The outcomes of the four functions\<close>

lemma verify_well_lengthed:
  assumes "length msg = 32" "length pubkey = 32" "length sig = 64"
  shows "verify env msg pubkey sig =
     (case lift_x env pubkey of
        None \<Rightarrow> Inr False
      | Some P \<Rightarrow>
          if int_from_bytes (take 32 sig) \<ge> curve_p env \<or> int_from_bytes (drop 32 sig) \<ge> curve_n env
          then Inr False
          else (case compute_R env (int_from_bytes (drop 32 sig)) P
                       (curve_n env - challenge env (take 32 sig) pubkey msg) of
                  Inl err \<Rightarrow> Inl err
                | Inr R \<Rightarrow> Inr (has_even_y R \<and> fst R = int_from_bytes (take 32 sig))))"
  using assms
  by (auto simp add: verify_def Let_def and_then_def split: option.splits sum.splits)

lemma bcrypto410_verify_well_lengthed:
  assumes "length msg = 32" "length sig = 64"
  shows "bcrypto410_verify env msg pubkey sig =
     (case PublicKey_decode env pubkey of
        Inl err \<Rightarrow> Inl err
      | Inr P \<Rightarrow>
          if int_from_bytes (take 32 sig) \<ge> curve_p env \<or> int_from_bytes (drop 32 sig) \<ge> curve_n env
          then Inr False
          else (case compute_R env (int_from_bytes (drop 32 sig)) P
                       (curve_n env
                        - int_from_bytes (hash_sha256 env (take 32 sig @ pubkey @ msg))
                          mod curve_n env) of
                  Inl err \<Rightarrow> Inl err
                | Inr R \<Rightarrow> Inr (is_quad env (snd R) \<and> fst R = int_from_bytes (take 32 sig))))"
  using assms
  by (auto simp add: bcrypto410_verify_def Let_def and_then_def split: option.splits sum.splits)

lemma verify_wrong_length:
  assumes "length msg \<noteq> 32 \<or> length pubkey \<noteq> 32 \<or> length sig \<noteq> 64"
  shows "verify env msg pubkey sig = Inl ValueError"
  using assms by (auto simp add: verify_def)

lemma bcrypto410_verify_wrong_length:
  assumes "length msg \<noteq> 32 \<or> length sig \<noteq> 64"
  shows "bcrypto410_verify env msg pubkey sig = Inl ValueError"
  using assms by (auto simp add: bcrypto410_verify_def)

lemma sign_invalid:
  assumes "length msg \<noteq> 32 \<or>
      \<not> (1 \<le> int_from_bytes seckey0 \<and> int_from_bytes seckey0 \<le> curve_n env - 1)"
  shows "sign env msg seckey0 aux ents = (Inl ValueError, ents)"
  using assms by (auto simp add: sign_def Let_def)

lemma bcrypto410_sign_invalid:
  assumes "length msg \<noteq> 32 \<or>
      \<not> (1 \<le> int_from_bytes seckey0 \<and> int_from_bytes seckey0 \<le> curve_n env - 1)"
  shows "bcrypto410_sign env msg seckey0 = Inl ValueError"
  using assms by (auto simp add: bcrypto410_sign_def Let_def)

lemma aux_or_random_draws_once:
  "aux_or_random aux ents = (r, ents') \<Longrightarrow> length ents \<le> Suc (length ents')"
  by (cases "(aux, ents)" rule: aux_or_random.cases) auto


section \<open>The claims\<close>

subsection \<open>C1: a signature made by \<open>sign\<close> verifies\<close>




subsection \<open>C3: when \<open>verify\<close> raises\<close>

text \<open>
  C3. A message that is not 32 bytes, a public key that is not 32 bytes or a signature
  that is not 64 bytes makes \<open>verify\<close> raise \<open>ValueError\<close>, and on a well-lengthed input a
  public key that \<open>lift_x\<close> rejects gives \<open>False\<close>. But a well-lengthed input can raise:
  it does so exactly when the curve computation of line 191 raises, with the exception of
  that line. Nothing guards the line, so where the sum is the point at infinity, or \<open>s\<close>
  is \<open>0\<close>, the call ends in an exception and line 192 never answers \<open>False\<close>.
\<close>

theorem verify_raises:
  "(length msg \<noteq> 32 \<or> length pubkey \<noteq> 32 \<or> length sig \<noteq> 64 \<longrightarrow>
      verify env msg pubkey sig = Inl ValueError) \<and>
   (length msg = 32 \<and> length pubkey = 32 \<and> length sig = 64 \<longrightarrow>
      (lift_x env pubkey = None \<longrightarrow> verify env msg pubkey sig = Inr False) \<and>
      (verify env msg pubkey sig = Inl err \<longleftrightarrow>
         (\<exists>P. lift_x env pubkey = Some P \<and>
              int_from_bytes (take 32 sig) < curve_p env \<and>
              int_from_bytes (drop 32 sig) < curve_n env \<and>
              compute_R env (int_from_bytes (drop 32 sig)) P
                (curve_n env - challenge env (take 32 sig) pubkey msg) = Inl err)))"
proof (intro conjI impI)
  assume "length msg \<noteq> 32 \<or> length pubkey \<noteq> 32 \<or> length sig \<noteq> 64"
  then show "verify env msg pubkey sig = Inl ValueError"
    by (rule verify_wrong_length)
next
  assume "length msg = 32 \<and> length pubkey = 32 \<and> length sig = 64"
    and "lift_x env pubkey = None"
  then show "verify env msg pubkey sig = Inr False"
    by (simp add: verify_well_lengthed)
next
  assume "length msg = 32 \<and> length pubkey = 32 \<and> length sig = 64"
  then show "verify env msg pubkey sig = Inl err \<longleftrightarrow>
         (\<exists>P. lift_x env pubkey = Some P \<and>
              int_from_bytes (take 32 sig) < curve_p env \<and>
              int_from_bytes (drop 32 sig) < curve_n env \<and>
              compute_R env (int_from_bytes (drop 32 sig)) P
                (curve_n env - challenge env (take 32 sig) pubkey msg) = Inl err)"
    by (auto simp add: verify_well_lengthed split: option.splits if_splits sum.splits)
qed

theorem verify_raises_witness:
  "verify tiny (replicate 31 0) (be_bytes 32 7) (replicate 64 0) = Inl ValueError \<and>
   length (replicate 32 (0::byte)) = 32 \<and> length (be_bytes 32 0) = 32 \<and>
   length (replicate 64 (0::byte)) = 64 \<and> lift_x tiny (be_bytes 32 0) = None \<and>
   verify tiny (replicate 32 0) (be_bytes 32 0) (replicate 64 0) = Inr False \<and>
   length (be_bytes 32 7) = 32 \<and> length (replicate 32 (0::byte) @ be_bytes 32 1) = 64 \<and>
   lift_x tiny (be_bytes 32 7) = Some (7, 8) \<and>
   int_from_bytes (take 32 (replicate 32 0 @ be_bytes 32 1)) < curve_p tiny \<and>
   int_from_bytes (drop 32 (replicate 32 0 @ be_bytes 32 1)) < curve_n tiny \<and>
   compute_R tiny (int_from_bytes (drop 32 (replicate 32 0 @ be_bytes 32 1))) (7, 8)
     (curve_n tiny
      - challenge tiny (take 32 (replicate 32 0 @ be_bytes 32 1)) (be_bytes 32 7)
          (replicate 32 0)) = Inl ValueError \<and>
   verify tiny (replicate 32 0) (be_bytes 32 7) (replicate 32 0 @ be_bytes 32 1) = Inl ValueError \<and>
   compute_R tiny (int_from_bytes (drop 32 (replicate 64 0))) (7, 8)
     (curve_n tiny - challenge tiny (take 32 (replicate 64 0)) (be_bytes 32 7) (replicate 32 0))
     = Inl TypeError \<and>
   verify tiny (replicate 32 0) (be_bytes 32 7) (replicate 64 0) = Inl TypeError"
proof -
  let ?msg = "replicate 32 (0::byte)"
  let ?sig = "replicate 32 (0::byte) @ be_bytes 32 1"
  let ?pk = "be_bytes 32 7"
  have a: "verify tiny (replicate 31 0) ?pk (replicate 64 0) = Inl ValueError"
    using verify_raises [of "replicate 31 0" ?pk "replicate 64 0" tiny] by simp
  have l: "length ?msg = 32" "length (be_bytes 32 0) = 32" "length (replicate 64 (0::byte)) = 64"
    "length ?pk = 32" "length ?sig = 64"
    by (simp_all add: length_be_bytes)
  have n: "lift_x tiny (be_bytes 32 0) = None" by code_simp
  have b: "verify tiny ?msg (be_bytes 32 0) (replicate 64 0) = Inr False"
    using verify_raises [of ?msg "be_bytes 32 0" "replicate 64 0" tiny] l n by simp
  have h3: "int_from_bytes (take 32 ?sig) < curve_p tiny" by code_simp
  have h4: "int_from_bytes (drop 32 ?sig) < curve_n tiny" by code_simp
  have h6: "lift_x tiny ?pk = Some (7, 8)" by (simp add: tiny_lift_x_table)
  have inf: "compute_R tiny (int_from_bytes (drop 32 ?sig)) (7, 8)
     (curve_n tiny - challenge tiny (take 32 ?sig) ?pk ?msg) = Inl ValueError"
    by code_simp
  have c: "verify tiny ?msg ?pk ?sig = Inl ValueError"
    using verify_raises [of ?msg ?pk ?sig tiny ValueError] l h3 h4 h6 inf by blast
  have z3: "int_from_bytes (take 32 (replicate 64 (0::byte))) < curve_p tiny" by code_simp
  have z4: "int_from_bytes (drop 32 (replicate 64 (0::byte))) < curve_n tiny" by code_simp
  have zero: "compute_R tiny (int_from_bytes (drop 32 (replicate 64 0))) (7, 8)
     (curve_n tiny - challenge tiny (take 32 (replicate 64 0)) ?pk ?msg) = Inl TypeError"
    by code_simp
  have d: "verify tiny ?msg ?pk (replicate 64 0) = Inl TypeError"
    using verify_raises [of ?msg ?pk "replicate 64 0" tiny TypeError] l z3 z4 h6 zero by blast
  from a l n b h3 h4 h6 inf c zero d show ?thesis by blast
qed

subsection \<open>C4: a signature out of range is refused\<close>

text \<open>
  C4, as amended. For a 32-byte message and a 64-byte signature whose \<open>r\<close> is at least
  \<open>p\<close> or whose \<open>s\<close> is at least \<open>n\<close>, \<open>verify\<close> on a 32-byte public key returns \<open>False\<close>,
  and \<open>bcrypto410_verify\<close> returns \<open>False\<close> on a public key that \<open>PublicKey.decode\<close>
  accepts. They do so whatever \<open>G * s\<close>, \<open>point_mul\<close> and the addition are: the answer is
  given before \<open>R\<close> is computed.
\<close>

theorem range_check_false:
  assumes "length msg = 32" "length sig = 64"
    and "int_from_bytes (take 32 sig) \<ge> curve_p env \<or> int_from_bytes (drop 32 sig) \<ge> curve_n env"
  shows "(length pubkey = 32 \<longrightarrow>
            verify (env\<lparr>G_times := gt, point_mul := pm, point_add := pa\<rparr>) msg pubkey sig
              = Inr False) \<and>
         (PublicKey_decode env pubkey = Inr P \<longrightarrow>
            bcrypto410_verify (env\<lparr>G_times := gt, point_mul := pm, point_add := pa\<rparr>)
              msg pubkey sig = Inr False)"
  using assms
  by (auto simp add: verify_well_lengthed bcrypto410_verify_well_lengthed split: option.splits)

theorem range_check_false_witness:
  "length (replicate 32 (0::byte)) = 32 \<and> length (be_bytes 32 13 @ be_bytes 32 0) = 64 \<and>
   int_from_bytes (take 32 (be_bytes 32 13 @ be_bytes 32 0)) \<ge> curve_p tiny \<and>
   length (be_bytes 32 7) = 32 \<and> PublicKey_decode tiny (2 # be_bytes 32 7) = Inr (7, 8) \<and>
   verify tiny (replicate 32 0) (be_bytes 32 7) (be_bytes 32 13 @ be_bytes 32 0) = Inr False \<and>
   bcrypto410_verify tiny (replicate 32 0) (2 # be_bytes 32 7) (be_bytes 32 13 @ be_bytes 32 0)
     = Inr False"
proof -
  let ?msg = "replicate 32 (0::byte)"
  let ?sig = "be_bytes 32 13 @ be_bytes 32 0"
  have h1: "length ?msg = 32" by simp
  have h2: "length ?sig = 64" by (simp add: length_be_bytes)
  have r: "int_from_bytes (take 32 ?sig) \<ge> curve_p tiny"
    by (simp add: length_be_bytes int_from_be_bytes_32)
  then have h3: "int_from_bytes (take 32 ?sig) \<ge> curve_p tiny
                 \<or> int_from_bytes (drop 32 ?sig) \<ge> curve_n tiny" by simp
  have h5: "length (be_bytes 32 7) = 32" by (simp add: length_be_bytes)
  have g5: "PublicKey_decode tiny (2 # be_bytes 32 7) = Inr (7, 8)"
    by (simp add: tiny_decode_def tiny_lift_x_table)
  have same: "tiny\<lparr>G_times := tiny_G_times, point_mul := tiny_point_mul,
                   point_add := tiny_plus\<rparr> = tiny"
    by (simp add: tiny_def)
  from range_check_false [where gt = tiny_G_times and pm = tiny_point_mul and pa = tiny_plus
      and pubkey = "be_bytes 32 7", OF h1 h2 h3]
  have v: "verify tiny ?msg (be_bytes 32 7) ?sig = Inr False"
    using h5 by (simp add: same)
  from range_check_false [where gt = tiny_G_times and pm = tiny_point_mul and pa = tiny_plus
        and pubkey = "2 # be_bytes 32 7" and P = "(7, 8)", OF h1 h2 h3]
  have w: "bcrypto410_verify tiny ?msg (2 # be_bytes 32 7) ?sig = Inr False"
    using g5 by (simp add: same)
  from h1 h2 r h5 g5 v w show ?thesis by blast
qed

text \<open>
  The claim as stated fails in \<open>bcrypto410_verify\<close> on a well-lengthed public key that
  the decoder rejects: line 99 decodes before line 101 compares, and the call raises
  instead of returning \<open>False\<close>.
\<close>

theorem decoder_first_counterexample:
  "length (replicate 32 (0::byte)) = 32 \<and> length (2 # be_bytes 32 0) = 33 \<and>
   length (be_bytes 32 13 @ be_bytes 32 0) = 64 \<and>
   int_from_bytes (take 32 (be_bytes 32 13 @ be_bytes 32 0)) \<ge> curve_p tiny \<and>
   bcrypto410_verify tiny (replicate 32 0) (2 # be_bytes 32 0) (be_bytes 32 13 @ be_bytes 32 0)
     = Inl ValueError"
proof -
  have "bcrypto410_verify tiny (replicate 32 0) (2 # be_bytes 32 0)
          (be_bytes 32 13 @ be_bytes 32 0) = Inl ValueError"
    by code_simp
  then show ?thesis
    by (simp add: length_be_bytes int_from_be_bytes_32)
qed

subsection \<open>C5: the answer once \<open>R\<close> is computed\<close>

text \<open>
  C5. For a well-lengthed input whose public key decodes and whose \<open>r\<close> and \<open>s\<close> are in
  range, the answer of both verifiers is decided by line 191 (line 105): when it returns
  a point \<open>R\<close>, they return whether \<open>R.y\<close> is even (a quadratic residue, in
  \<open>bcrypto410_verify\<close>) and \<open>R.x\<close> equals \<open>r\<close>; when it raises, they raise. \<open>False\<close> is
  returned for a point only, never for the point at infinity.
\<close>

theorem verify_R_outcome:
  assumes "length msg = 32" "length sig = 64"
    and "int_from_bytes (take 32 sig) < curve_p env"
    and "int_from_bytes (drop 32 sig) < curve_n env"
  shows "(length pubkey = 32 \<and> lift_x env pubkey = Some P \<longrightarrow>
            verify env msg pubkey sig =
              (case compute_R env (int_from_bytes (drop 32 sig)) P
                      (curve_n env - challenge env (take 32 sig) pubkey msg) of
                 Inl err \<Rightarrow> Inl err
               | Inr R \<Rightarrow> Inr (has_even_y R \<and> fst R = int_from_bytes (take 32 sig)))) \<and>
         (PublicKey_decode env pubkey = Inr P \<longrightarrow>
            bcrypto410_verify env msg pubkey sig =
              (case compute_R env (int_from_bytes (drop 32 sig)) P
                      (curve_n env
                       - int_from_bytes (hash_sha256 env (take 32 sig @ pubkey @ msg))
                         mod curve_n env) of
                 Inl err \<Rightarrow> Inl err
               | Inr R \<Rightarrow> Inr (is_quad env (snd R) \<and> fst R = int_from_bytes (take 32 sig))))"
  using assms
  by (simp add: verify_well_lengthed bcrypto410_verify_well_lengthed)

theorem verify_R_outcome_witness:
  "length (replicate 31 (0::byte) @ [3]) = 32 \<and> length (be_bytes 32 8 @ be_bytes 32 3) = 64 \<and>
   int_from_bytes (take 32 (be_bytes 32 8 @ be_bytes 32 3)) < curve_p tiny \<and>
   int_from_bytes (drop 32 (be_bytes 32 8 @ be_bytes 32 3)) < curve_n tiny \<and>
   length (be_bytes 32 11) = 32 \<and> lift_x tiny (be_bytes 32 11) = Some (11, 8) \<and>
   compute_R tiny (int_from_bytes (drop 32 (be_bytes 32 8 @ be_bytes 32 3))) (11, 8)
     (curve_n tiny
      - challenge tiny (take 32 (be_bytes 32 8 @ be_bytes 32 3)) (be_bytes 32 11)
          (replicate 31 0 @ [3])) = Inr (8, 8) \<and>
   verify tiny (replicate 31 0 @ [3]) (be_bytes 32 11) (be_bytes 32 8 @ be_bytes 32 3) = Inr True \<and>
   length (be_bytes 32 8 @ be_bytes 32 4) = 64 \<and>
   int_from_bytes (take 32 (be_bytes 32 8 @ be_bytes 32 4)) < curve_p tiny \<and>
   int_from_bytes (drop 32 (be_bytes 32 8 @ be_bytes 32 4)) < curve_n tiny \<and>
   compute_R tiny (int_from_bytes (drop 32 (be_bytes 32 8 @ be_bytes 32 4))) (11, 8)
     (curve_n tiny
      - challenge tiny (take 32 (be_bytes 32 8 @ be_bytes 32 4)) (be_bytes 32 11)
          (replicate 31 0 @ [3])) = Inr (11, 5) \<and>
   verify tiny (replicate 31 0 @ [3]) (be_bytes 32 11) (be_bytes 32 8 @ be_bytes 32 4) = Inr False \<and>
   length (replicate 32 (0::byte)) = 32 \<and> length (replicate 32 (0::byte) @ be_bytes 32 1) = 64 \<and>
   int_from_bytes (take 32 (replicate 32 0 @ be_bytes 32 1)) < curve_p tiny \<and>
   int_from_bytes (drop 32 (replicate 32 0 @ be_bytes 32 1)) < curve_n tiny \<and>
   PublicKey_decode tiny (2 # be_bytes 32 7) = Inr (7, 8) \<and>
   compute_R tiny (int_from_bytes (drop 32 (replicate 32 0 @ be_bytes 32 1))) (7, 8)
     (curve_n tiny
      - int_from_bytes
          (hash_sha256 tiny
             (take 32 (replicate 32 0 @ be_bytes 32 1) @ (2 # be_bytes 32 7) @ replicate 32 0))
        mod curve_n tiny) = Inr (7, 5) \<and>
   bcrypto410_verify tiny (replicate 32 0) (2 # be_bytes 32 7) (replicate 32 0 @ be_bytes 32 1)
     = Inr False \<and>
   length (be_bytes 32 7) = 32 \<and> lift_x tiny (be_bytes 32 7) = Some (7, 8) \<and>
   compute_R tiny (int_from_bytes (drop 32 (replicate 32 0 @ be_bytes 32 1))) (7, 8)
     (curve_n tiny
      - challenge tiny (take 32 (replicate 32 0 @ be_bytes 32 1)) (be_bytes 32 7)
          (replicate 32 0)) = Inl ValueError \<and>
   verify tiny (replicate 32 0) (be_bytes 32 7) (replicate 32 0 @ be_bytes 32 1) = Inl ValueError"
proof -
  let ?pk7 = "be_bytes 32 7"
  have l7: "length ?pk7 = 32" by (simp add: length_be_bytes)
  have lx7: "lift_x tiny ?pk7 = Some (7, 8)" by (simp add: tiny_lift_x_table)
  let ?m3 = "replicate 31 (0::byte) @ [3]"
  let ?pk = "be_bytes 32 11"
  let ?sa = "be_bytes 32 8 @ be_bytes 32 3"
  let ?sb = "be_bytes 32 8 @ be_bytes 32 4"
  let ?m0 = "replicate 32 (0::byte)"
  let ?sc = "replicate 32 (0::byte) @ be_bytes 32 1"
  let ?pk2 = "2 # be_bytes 32 7"
  have l: "length ?m3 = 32" "length ?sa = 64" "length ?sb = 64" "length ?pk = 32"
    "length ?m0 = 32" "length ?sc = 64"
    by (simp_all add: length_be_bytes)
  have a3: "int_from_bytes (take 32 ?sa) < curve_p tiny" by code_simp
  have a4: "int_from_bytes (drop 32 ?sa) < curve_n tiny" by code_simp
  have b3: "int_from_bytes (take 32 ?sb) < curve_p tiny" by code_simp
  have b4: "int_from_bytes (drop 32 ?sb) < curve_n tiny" by code_simp
  have c3: "int_from_bytes (take 32 ?sc) < curve_p tiny" by code_simp
  have c4: "int_from_bytes (drop 32 ?sc) < curve_n tiny" by code_simp
  have ra: "int_from_bytes (take 32 ?sa) = 8" by code_simp
  have rb: "int_from_bytes (take 32 ?sb) = 8" by code_simp
  have rc: "int_from_bytes (take 32 ?sc) = 0" by code_simp
  have lx: "lift_x tiny ?pk = Some (11, 8)" by (simp add: tiny_lift_x_table)
  have dc: "PublicKey_decode tiny ?pk2 = Inr (7, 8)"
    by (simp add: tiny_decode_def tiny_lift_x_table)
  have Ra: "compute_R tiny (int_from_bytes (drop 32 ?sa)) (11, 8)
     (curve_n tiny - challenge tiny (take 32 ?sa) ?pk ?m3) = Inr (8, 8)"
    by code_simp
  have Rb: "compute_R tiny (int_from_bytes (drop 32 ?sb)) (11, 8)
     (curve_n tiny - challenge tiny (take 32 ?sb) ?pk ?m3) = Inr (11, 5)"
    by code_simp
  have Rc: "compute_R tiny (int_from_bytes (drop 32 ?sc)) (7, 8)
     (curve_n tiny
      - int_from_bytes (hash_sha256 tiny (take 32 ?sc @ ?pk2 @ ?m0)) mod curve_n tiny)
     = Inr (7, 5)"
    by code_simp
  have va: "verify tiny ?m3 ?pk ?sa = Inr True"
    using verify_R_outcome [OF l(1) l(2) a3 a4, of ?pk "(11, 8)"] l(4) lx Ra ra
    by (simp add: has_even_y_def)
  have vb: "verify tiny ?m3 ?pk ?sb = Inr False"
    using verify_R_outcome [OF l(1) l(3) b3 b4, of ?pk "(11, 8)"] l(4) lx Rb rb
    by (simp add: has_even_y_def)
  have vc: "bcrypto410_verify tiny ?m0 ?pk2 ?sc = Inr False"
    using verify_R_outcome [OF l(5) l(6) c3 c4, of ?pk2 "(7, 8)"] dc Rc rc
    by simp
  have Rd: "compute_R tiny (int_from_bytes (drop 32 ?sc)) (7, 8)
     (curve_n tiny - challenge tiny (take 32 ?sc) ?pk7 ?m0) = Inl ValueError"
    by code_simp
  have vd: "verify tiny ?m0 ?pk7 ?sc = Inl ValueError"
    using verify_R_outcome [OF l(5) l(6) c3 c4, of ?pk7 "(7, 8)"] l7 lx7 Rd
    by simp
  from l a3 a4 b3 b4 c3 c4 lx dc Ra Rb Rc va vb vc l7 lx7 Rd vd show ?thesis by blast
qed

subsection \<open>C6: which wrong lengths raise the invalid-input error\<close>

text \<open>
  C6, as amended. A message that is not 32 bytes raises \<open>ValueError\<close> in all four
  functions, a signature that is not 64 bytes in both verifiers, a public key that is not
  32 bytes in \<open>verify\<close>; in \<open>sign\<close> the entropy source is left as it was. The secret key
  is checked by the range of its integer, not by its length: outside \<open>[1, n-1]\<close> both
  signers raise \<open>ValueError\<close>. \<open>bcrypto410_verify\<close> checks no length of its public key:
  it hands the buffer to \<open>PublicKey.decode\<close>, and raises what the decoder raises.
\<close>

theorem ValueError_cases:
  "(length msg \<noteq> 32 \<longrightarrow>
      sign env msg seckey0 aux ents = (Inl ValueError, ents) \<and>
      bcrypto410_sign env msg seckey0 = Inl ValueError \<and>
      verify env msg pubkey sig = Inl ValueError \<and>
      bcrypto410_verify env msg pubkey sig = Inl ValueError) \<and>
   (length sig \<noteq> 64 \<longrightarrow>
      verify env msg pubkey sig = Inl ValueError \<and>
      bcrypto410_verify env msg pubkey sig = Inl ValueError) \<and>
   (length pubkey \<noteq> 32 \<longrightarrow> verify env msg pubkey sig = Inl ValueError) \<and>
   (\<not> (1 \<le> int_from_bytes seckey0 \<and> int_from_bytes seckey0 \<le> curve_n env - 1) \<longrightarrow>
      sign env msg seckey0 aux ents = (Inl ValueError, ents) \<and>
      bcrypto410_sign env msg seckey0 = Inl ValueError) \<and>
   (length msg = 32 \<and> length sig = 64 \<and> PublicKey_decode env pubkey = Inl err \<longrightarrow>
      bcrypto410_verify env msg pubkey sig = Inl err)"
proof (intro conjI impI)
  assume "length msg = 32 \<and> length sig = 64 \<and> PublicKey_decode env pubkey = Inl err"
  then show "bcrypto410_verify env msg pubkey sig = Inl err"
    by (simp add: bcrypto410_verify_well_lengthed)
qed (simp_all add: sign_invalid bcrypto410_sign_invalid verify_wrong_length
    bcrypto410_verify_wrong_length)

theorem ValueError_cases_witness:
  "length (replicate 31 (0::byte)) \<noteq> 32 \<and>
   sign tiny (replicate 31 0) (be_bytes 32 3) (Some (replicate 32 0)) [5] = (Inl ValueError, [5]) \<and>
   bcrypto410_sign tiny (replicate 31 0) (be_bytes 32 3) = Inl ValueError \<and>
   verify tiny (replicate 31 0) (be_bytes 32 7) (replicate 64 0) = Inl ValueError \<and>
   bcrypto410_verify tiny (replicate 31 0) (2 # be_bytes 32 7) (replicate 64 0) = Inl ValueError \<and>
   length (replicate 65 (0::byte)) \<noteq> 64 \<and>
   verify tiny (replicate 32 0) (be_bytes 32 7) (replicate 65 0) = Inl ValueError \<and>
   bcrypto410_verify tiny (replicate 32 0) (2 # be_bytes 32 7) (replicate 65 0) = Inl ValueError \<and>
   length (replicate 31 (0::byte)) \<noteq> 32 \<and>
   verify tiny (replicate 32 0) (replicate 31 0) (replicate 64 0) = Inl ValueError \<and>
   \<not> (1 \<le> int_from_bytes (be_bytes 32 7) \<and> int_from_bytes (be_bytes 32 7) \<le> curve_n tiny - 1) \<and>
   sign tiny (replicate 32 0) (be_bytes 32 7) None [5] = (Inl ValueError, [5]) \<and>
   bcrypto410_sign tiny (replicate 32 0) (be_bytes 32 7) = Inl ValueError \<and>
   length (replicate 32 (0::byte)) = 32 \<and> length (replicate 64 (0::byte)) = 64 \<and>
   PublicKey_decode tiny [2, 0] = Inl ValueError \<and>
   bcrypto410_verify tiny (replicate 32 0) [2, 0] (replicate 64 0) = Inl ValueError"
proof -
  have i: "int_from_bytes (be_bytes 32 7) = 7" by (simp add: int_from_be_bytes_32)
  have r: "\<not> (1 \<le> int_from_bytes (be_bytes 32 7) \<and>
              int_from_bytes (be_bytes 32 7) \<le> curve_n tiny - 1)"
    by (simp add: i)
  have d: "PublicKey_decode tiny [2, 0] = Inl ValueError" by code_simp
  have l: "length (replicate 31 (0::byte)) \<noteq> 32" "length (replicate 65 (0::byte)) \<noteq> 64"
    "length (replicate 32 (0::byte)) = 32" "length (replicate 64 (0::byte)) = 64"
    by simp_all
  note m = ValueError_cases [of "replicate 31 0" tiny "be_bytes 32 3" "Some (replicate 32 0)"
      "[5]" "be_bytes 32 7" "replicate 64 0"]
  note m' = ValueError_cases [of "replicate 31 0" tiny "be_bytes 32 3" "Some (replicate 32 0)"
      "[5]" "2 # be_bytes 32 7" "replicate 64 0"]
  note g = ValueError_cases [of "replicate 32 0" tiny "be_bytes 32 7" None "[5]"
      "be_bytes 32 7" "replicate 65 0"]
  note g' = ValueError_cases [of "replicate 32 0" tiny "be_bytes 32 7" None "[5]"
      "2 # be_bytes 32 7" "replicate 65 0"]
  note p = ValueError_cases [of "replicate 32 0" tiny "be_bytes 32 7" None "[5]"
      "replicate 31 0" "replicate 64 0"]
  note q = ValueError_cases [of "replicate 32 0" tiny "be_bytes 32 7" None "[5]"
      "[2, 0]" "replicate 64 0" ValueError]
  have "sign tiny (replicate 31 0) (be_bytes 32 3) (Some (replicate 32 0)) [5]
          = (Inl ValueError, [5])"
    and "bcrypto410_sign tiny (replicate 31 0) (be_bytes 32 3) = Inl ValueError"
    and "verify tiny (replicate 31 0) (be_bytes 32 7) (replicate 64 0) = Inl ValueError"
    using m l by blast+
  moreover
  have "bcrypto410_verify tiny (replicate 31 0) (2 # be_bytes 32 7) (replicate 64 0)
          = Inl ValueError"
    using m' l by blast
  moreover
  have "verify tiny (replicate 32 0) (be_bytes 32 7) (replicate 65 0) = Inl ValueError"
    using g l by blast
  moreover
  have "bcrypto410_verify tiny (replicate 32 0) (2 # be_bytes 32 7) (replicate 65 0)
          = Inl ValueError"
    using g' l by blast
  moreover
  have "verify tiny (replicate 32 0) (replicate 31 0) (replicate 64 0) = Inl ValueError"
    using p l by blast
  moreover
  have "sign tiny (replicate 32 0) (be_bytes 32 7) None [5] = (Inl ValueError, [5])"
    and "bcrypto410_sign tiny (replicate 32 0) (be_bytes 32 7) = Inl ValueError"
    using g r by blast+
  moreover
  have "bcrypto410_verify tiny (replicate 32 0) [2, 0] (replicate 64 0) = Inl ValueError"
    using q l d by blast
  ultimately show ?thesis using l r d by blast
qed

text \<open>
  The claim as stated fails on a secret key of one byte, which both signers accept and
  sign with, and on a public key of two bytes, which \<open>bcrypto410_verify\<close> hands to the
  decoder and verifies against.
\<close>

theorem unchecked_length_counterexample:
  "length [3 :: byte] \<noteq> 32 \<and>
   sign tiny (replicate 32 0) [3] (Some (replicate 32 0)) []
     = (Inr (be_bytes 32 7 @ be_bytes 32 0), []) \<and>
   bcrypto410_sign tiny (replicate 32 0) [3] = Inr (be_bytes 32 11 @ be_bytes 32 2) \<and>
   length [2 :: byte, 7] \<noteq> 33 \<and> length [2 :: byte, 7] \<noteq> 65 \<and>
   PublicKey_decode tiny [2, 7] = Inr (7, 8) \<and>
   bcrypto410_verify tiny (replicate 32 0) [2, 7] (replicate 32 0 @ be_bytes 32 1) = Inr False"
  by code_simp

subsection \<open>C7: the secret key is normalised to the even point\<close>



subsection \<open>C8: a zero nonce aborts the signing call\<close>

text \<open>
  C8. In \<open>sign\<close>, when the message and the secret key are valid and the nonce \<open>k0\<close> of
  lines 143-145 is 0, the call ends with \<open>RuntimeError\<close>; the entropy source has been
  asked at most once. In \<open>bcrypto410_sign\<close>, when the nonce of line 63 is 0, the call
  ends with \<open>RuntimeError\<close>. \<open>RuntimeError\<close> is not the invalid-input error.
\<close>

theorem nonce_zero_aborts:
  "(length msg = 32 \<and> 1 \<le> int_from_bytes seckey0 \<and> int_from_bytes seckey0 \<le> curve_n env - 1 \<and>
    G_times env (int_from_bytes seckey0) = Inr P \<and>
    bytes_from_int (sign_seckey env P (int_from_bytes seckey0)) = Inr skb \<and>
    aux_or_random aux_rand ents = (Inr a, ents') \<and>
    bytes_from_point P = Inr Pb \<and>
    sign_k0 env skb a Pb msg = 0 \<longrightarrow>
      sign env msg seckey0 aux_rand ents = (Inl RuntimeError, ents') \<and>
      length ents \<le> Suc (length ents')) \<and>
   (length msg = 32 \<and> 1 \<le> int_from_bytes seckey0 \<and> int_from_bytes seckey0 \<le> curve_n env - 1 \<and>
    bcrypto410_k0 env seckey0 msg = 0 \<longrightarrow>
      bcrypto410_sign env msg seckey0 = Inl RuntimeError) \<and>
   RuntimeError \<noteq> ValueError"
proof (intro conjI impI)
  assume h: "length msg = 32 \<and> 1 \<le> int_from_bytes seckey0 \<and>
    int_from_bytes seckey0 \<le> curve_n env - 1 \<and>
    G_times env (int_from_bytes seckey0) = Inr P \<and>
    bytes_from_int (sign_seckey env P (int_from_bytes seckey0)) = Inr skb \<and>
    aux_or_random aux_rand ents = (Inr a, ents') \<and>
    bytes_from_point P = Inr Pb \<and>
    sign_k0 env skb a Pb msg = 0"
  then show "sign env msg seckey0 aux_rand ents = (Inl RuntimeError, ents')"
    by (simp add: sign_def Let_def sign_finish_zero)
  from h show "length ents \<le> Suc (length ents')"
    using aux_or_random_draws_once by blast
next
  assume "length msg = 32 \<and> 1 \<le> int_from_bytes seckey0 \<and>
    int_from_bytes seckey0 \<le> curve_n env - 1 \<and> bcrypto410_k0 env seckey0 msg = 0"
  then show "bcrypto410_sign env msg seckey0 = Inl RuntimeError"
    by (simp add: bcrypto410_sign_def Let_def)
qed simp

theorem nonce_zero_aborts_witness:
  "length (replicate 31 (0::byte) @ [1]) = 32 \<and>
   int_from_bytes (be_bytes 32 3) = 3 \<and> (3::int) \<le> curve_n tiny - 1 \<and>
   G_times tiny 3 = Inr (11, 5) \<and>
   bytes_from_int (sign_seckey tiny (11, 5) 3) = Inr (be_bytes 32 4) \<and>
   aux_or_random None [0, 5] = (Inr (be_bytes 32 0), [5]) \<and>
   bytes_from_point (11, 5) = Inr (be_bytes 32 11) \<and>
   sign_k0 tiny (be_bytes 32 4) (be_bytes 32 0) (be_bytes 32 11) (replicate 31 0 @ [1]) = 0 \<and>
   sign tiny (replicate 31 0 @ [1]) (be_bytes 32 3) None [0, 5] = (Inl RuntimeError, [5]) \<and>
   length (replicate 31 (0::byte) @ [4]) = 32 \<and>
   bcrypto410_k0 tiny (be_bytes 32 3) (replicate 31 0 @ [4]) = 0 \<and>
   bcrypto410_sign tiny (replicate 31 0 @ [4]) (be_bytes 32 3) = Inl RuntimeError"
proof -
  let ?m1 = "replicate 31 (0::byte) @ [1]"
  let ?m4 = "replicate 31 (0::byte) @ [4]"
  have l: "length ?m1 = 32" "length ?m4 = 32" by simp_all
  have i: "int_from_bytes (be_bytes 32 3) = 3" by (simp add: int_from_be_bytes_32)
  have r: "(3::int) \<le> curve_n tiny - 1" by simp
  have g: "G_times tiny 3 = Inr (11, 5)" by (simp add: tiny_multiples)
  have s: "bytes_from_int (sign_seckey tiny (11, 5) 3) = Inr (be_bytes 32 4)"
    by (simp add: sign_seckey_def has_even_y_def bytes_from_int_def)
  have a: "aux_or_random None [0, 5] = (Inr (be_bytes 32 0), [5])"
    by (simp add: bytes_from_int_def)
  have b: "bytes_from_point (11, 5) = Inr (be_bytes 32 11)"
    by (simp add: bytes_from_point_def bytes_from_int_def)
  have k: "sign_k0 tiny (be_bytes 32 4) (be_bytes 32 0) (be_bytes 32 11) ?m1 = 0"
    by code_simp
  have k': "bcrypto410_k0 tiny (be_bytes 32 3) ?m4 = 0"
    by code_simp
  have "sign tiny ?m1 (be_bytes 32 3) None [0, 5] = (Inl RuntimeError, [5])"
    using nonce_zero_aborts [of ?m1 "be_bytes 32 3" tiny "(11, 5)" "be_bytes 32 4" None
        "[0, 5]" "be_bytes 32 0" "[5]" "be_bytes 32 11"]
      l i g s a b k by simp
  moreover
  have "bcrypto410_sign tiny ?m4 (be_bytes 32 3) = Inl RuntimeError"
    using nonce_zero_aborts [of ?m4 "be_bytes 32 3" tiny] l i k' by simp
  ultimately show ?thesis using l i r g s a b k k' by blast
qed

subsection \<open>C9: with auxiliary randomness supplied, \<open>sign\<close> asks for no entropy\<close>

text \<open>
  C9. When auxiliary randomness is supplied, the result of \<open>sign\<close> is the same whatever
  the entropy source holds, and the entropy source is left untouched. When it is absent,
  the entropy source is asked at most once. (\<open>bcrypto410_sign\<close> has no entropy source
  among its arguments: it is a function of the message and the secret key.)
\<close>

theorem sign_deterministic:
  "sign env msg seckey0 (Some a) ents = (fst (sign env msg seckey0 (Some a) ents'), ents) \<and>
   (snd (sign env msg seckey0 None ents) = ents \<or>
    snd (sign env msg seckey0 None ents) = tl ents)"
proof
  show "sign env msg seckey0 (Some a) ents = (fst (sign env msg seckey0 (Some a) ents'), ents)"
    by (simp add: sign_def Let_def split: option.splits sum.splits)
  show "snd (sign env msg seckey0 None ents) = ents \<or>
        snd (sign env msg seckey0 None ents) = tl ents"
    by (cases ents) (auto simp add: sign_def Let_def split: option.splits sum.splits)
qed

subsection \<open>C10: the auxiliary randomness may have any length\<close>

text \<open>
  C10. For a valid message and secret key and an auxiliary buffer \<open>a\<close> of any length,
  \<open>sign\<close> does not raise \<open>ValueError\<close>. The buffer goes as it is into
  \<open>tagged_hash("BIP0340/aux", a)\<close>: the call is the rest of \<open>sign\<close> run on the nonce
  \<open>int(tagged_hash("BIP0340/nonce", xor(d, tagged_hash("BIP0340/aux", a)) + P + msg)) % n\<close>.
  It returns a 64-byte signature, unless it aborts on a zero nonce.
\<close>

theorem aux_rand_any_length:
  assumes "curve_contract env" "length msg = 32"
    and "1 \<le> int_from_bytes seckey0" "int_from_bytes seckey0 \<le> curve_n env - 1"
  shows "fst (sign env msg seckey0 (Some a) ents) \<noteq> Inl ValueError \<and>
         (\<exists>P skb Pb.
            G_times env (int_from_bytes seckey0) = Inr P \<and>
            bytes_from_int (sign_seckey env P (int_from_bytes seckey0)) = Inr skb \<and>
            bytes_from_point P = Inr Pb \<and>
            sign env msg seckey0 (Some a) ents =
              (sign_finish env msg (sign_seckey env P (int_from_bytes seckey0)) Pb
                 (int_from_bytes
                    (tagged_hash env ''BIP0340/nonce''
                       (xor_bytes skb (tagged_hash env ''BIP0340/aux'' a) @ Pb @ msg))
                  mod curve_n env),
               ents)) \<and>
         (fst (sign env msg seckey0 (Some a) ents) = Inl RuntimeError \<or>
          (\<exists>sig. sign env msg seckey0 (Some a) ents = (Inr sig, ents) \<and> length sig = 64))"
proof (intro conjI)
  have out: "fst (sign env msg seckey0 (Some a) ents) = Inl RuntimeError \<or>
          (\<exists>sig. sign env msg seckey0 (Some a) ents = (Inr sig, ents) \<and> length sig = 64)"
    using sign_verify_gen [OF assms, of a ents] by blast
  then show "fst (sign env msg seckey0 (Some a) ents) = Inl RuntimeError \<or>
          (\<exists>sig. sign env msg seckey0 (Some a) ents = (Inr sig, ents) \<and> length sig = 64)" .
  from out show "fst (sign env msg seckey0 (Some a) ents) \<noteq> Inl ValueError" by auto
  have lt: "int_from_bytes seckey0 < curve_n env" using assms(4) by simp
  obtain P where P: "G_times env (int_from_bytes seckey0) = Inr P"
    using contract_multiple [OF assms(1,3) lt] by blast
  have Q: "1 \<le> sign_seckey env P (int_from_bytes seckey0)"
    "sign_seckey env P (int_from_bytes seckey0) < curve_n env"
    "0 \<le> fst P" "fst P < curve_p env"
    using normalized_scalar [OF assms(1,3) lt P] by blast+
  have skb: "bytes_from_int (sign_seckey env P (int_from_bytes seckey0))
               = Inr (be_bytes 32 (sign_seckey env P (int_from_bytes seckey0)))"
    using Q(1,2) contract_consts(2) [OF assms(1)] by (intro bytes_from_int_Inr) simp_all
  have Pb: "bytes_from_point P = Inr (be_bytes 32 (fst P))"
    unfolding bytes_from_point_def
    using Q(3,4) contract_consts(3) [OF assms(1)] by (intro bytes_from_int_Inr) simp_all
  have "sign env msg seckey0 (Some a) ents =
      (sign_finish env msg (sign_seckey env P (int_from_bytes seckey0)) (be_bytes 32 (fst P))
         (int_from_bytes
            (tagged_hash env ''BIP0340/nonce''
               (xor_bytes (be_bytes 32 (sign_seckey env P (int_from_bytes seckey0)))
                  (tagged_hash env ''BIP0340/aux'' a) @ be_bytes 32 (fst P) @ msg))
          mod curve_n env),
       ents)"
    using assms(2-4) P skb Pb by (simp add: sign_def sign_k0_def Let_def)
  with P skb Pb show "\<exists>P skb Pb.
            G_times env (int_from_bytes seckey0) = Inr P \<and>
            bytes_from_int (sign_seckey env P (int_from_bytes seckey0)) = Inr skb \<and>
            bytes_from_point P = Inr Pb \<and>
            sign env msg seckey0 (Some a) ents =
              (sign_finish env msg (sign_seckey env P (int_from_bytes seckey0)) Pb
                 (int_from_bytes
                    (tagged_hash env ''BIP0340/nonce''
                       (xor_bytes skb (tagged_hash env ''BIP0340/aux'' a) @ Pb @ msg))
                  mod curve_n env),
               ents)"
    by blast
qed

theorem aux_rand_any_length_witness:
  "curve_contract tiny \<and> length (replicate 32 (0::byte)) = 32 \<and>
   1 \<le> int_from_bytes (be_bytes 32 3) \<and> int_from_bytes (be_bytes 32 3) \<le> curve_n tiny - 1 \<and>
   length ([] :: bytes) = 0 \<and> length (replicate 39 (0::byte) @ [2]) = 40 \<and>
   fst (sign tiny (replicate 32 0) (be_bytes 32 3) (Some []) []) \<noteq> Inl ValueError \<and>
   fst (sign tiny (replicate 32 0) (be_bytes 32 3) (Some (replicate 39 0 @ [2])) [])
     \<noteq> Inl ValueError \<and>
   tagged_hash tiny ''BIP0340/aux'' [] = be_bytes 32 62 \<and>
   tagged_hash tiny ''BIP0340/aux'' (replicate 39 0 @ [2]) = be_bytes 32 64 \<and>
   sign tiny (replicate 32 0) (be_bytes 32 3) (Some []) []
     = (Inr (be_bytes 32 7 @ be_bytes 32 0), []) \<and>
   sign tiny (replicate 32 0) (be_bytes 32 3) (Some (replicate 39 0 @ [2])) []
     = (Inr (be_bytes 32 8 @ be_bytes 32 5), []) \<and>
   length (be_bytes 32 7 @ be_bytes 32 0) = 64 \<and> length (be_bytes 32 8 @ be_bytes 32 5) = 64"
proof -
  have i3: "int_from_bytes (be_bytes 32 3) = 3" by (simp add: int_from_be_bytes_32)
  have h1: "length (replicate 32 (0::byte)) = 32" by simp
  have h2: "1 \<le> int_from_bytes (be_bytes 32 3)" by (simp add: i3)
  have h3: "int_from_bytes (be_bytes 32 3) \<le> curve_n tiny - 1" by (simp add: i3)
  have t: "tagged_hash tiny ''BIP0340/aux'' [] = be_bytes 32 62"
    "tagged_hash tiny ''BIP0340/aux'' (replicate 39 0 @ [2]) = be_bytes 32 64"
    by code_simp+
  have e: "sign tiny (replicate 32 0) (be_bytes 32 3) (Some []) []
     = (Inr (be_bytes 32 7 @ be_bytes 32 0), [])"
    "sign tiny (replicate 32 0) (be_bytes 32 3) (Some (replicate 39 0 @ [2])) []
     = (Inr (be_bytes 32 8 @ be_bytes 32 5), [])"
    by code_simp+
  have len: "length (be_bytes 32 7 @ be_bytes 32 0) = 64"
    "length (be_bytes 32 8 @ be_bytes 32 5) = 64"
    "length ([] :: bytes) = 0" "length (replicate 39 (0::byte) @ [2]) = 40"
    by (simp_all add: length_be_bytes)
  from aux_rand_any_length [OF tiny_contract h1 h2 h3, of "[]" "[]"]
  have a: "fst (sign tiny (replicate 32 0) (be_bytes 32 3) (Some []) []) \<noteq> Inl ValueError"
    by blast
  from aux_rand_any_length [OF tiny_contract h1 h2 h3, of "replicate 39 0 @ [2]" "[]"]
  have b: "fst (sign tiny (replicate 32 0) (be_bytes 32 3) (Some (replicate 39 0 @ [2])) [])
             \<noteq> Inl ValueError"
    by blast
  from tiny_contract h1 h2 h3 t e len a b show ?thesis by blast
qed

end
